theory Spec2Isabelle
  imports Main
begin

section \<open>Wikipedia research pipeline: data model\<close>

text \<open>
  The embedding follows \<^verbatim>\<open>agents/nodes.py\<close>, \<^verbatim>\<open>agents/workflow.py\<close> and
  \<^verbatim>\<open>utils/helpers.py\<close>. A Python \<^verbatim>\<open>str\<close> is a \<^typ>\<open>string\<close>, one \<^typ>\<open>char\<close> standing for
  one character of the Python string (so \<^const>\<open>length\<close> is Python's \<^verbatim>\<open>len\<close>); a Python
  \<^verbatim>\<open>int\<close> is an \<^typ>\<open>int\<close>.

  The three external collaborators (\<^verbatim>\<open>wikipedia.search\<close>, \<^verbatim>\<open>wikipedia.page\<close> and the
  chat completion client) are not code of the repository. They are parameters of the
  model: each is a function from the calls made so far and the request to a reply, so a
  provider may answer the same request differently at different moments. Every call
  is appended to a trace, which makes "no call was made" and "exactly one retry" statable.

  A reply is either the value the call returns or the exception it raises, by the
  \<^verbatim>\<open>except\<close> clause that catches it. \<open>PageFound\<close> stands for a page whose content, url and
  summary were all read; a fault while reading one of them is caught like a fault of
  \<^verbatim>\<open>wikipedia.page\<close> itself. A generation call is recorded by its prompt: the model name,
  the temperature and the token bound are constants of the source.
\<close>

datatype call =
  SearchCall string int
| PageCall string
| GenerateCall string

datatype search_reply =
  SearchTitles "string list"
| SearchDisambiguation "string list"
| SearchFault string

record page =
  page_content :: string
  page_url :: string
  page_summary :: string

datatype page_reply =
  PageFound page
| PageDisambiguation "string list"
| PageNotFound
| PageFault string

text \<open>
  The reply of the chat completion: the \<^verbatim>\<open>message.content\<close> of the first choice, which the
  client types \<^verbatim>\<open>Optional[str]\<close> (a text, \<open>GenText\<close>, or \<^verbatim>\<open>None\<close>, \<open>GenNone\<close>), or the
  exception the call raises.
\<close>

datatype gen_reply =
  GenText string
| GenNone
| GenFault string

record providers =
  search_provider :: "call list \<Rightarrow> string \<Rightarrow> int \<Rightarrow> search_reply"
  page_provider :: "call list \<Rightarrow> string \<Rightarrow> page_reply"
  gen_provider :: "call list \<Rightarrow> string \<Rightarrow> gen_reply"

record document =
  doc_title :: string
  doc_content :: string
  doc_url :: string
  doc_summary :: string

record source =
  src_title :: string
  src_url :: string
  src_summary :: string

text \<open>
  The value under the key \<^verbatim>\<open>answer\<close>: a Python \<^verbatim>\<open>str\<close>, or \<^verbatim>\<open>None\<close> when the completion has
  no content.
\<close>

datatype answer_value =
  Text string
| NoneValue

text \<open>
  A node receives and returns a Python dict over the six keys of \<^verbatim>\<open>ResearchState\<close>. A key
  may be absent (a node returns only the keys it sets), so every field is an option.
\<close>

record state_dict =
  st_query :: "string option"
  st_search_results :: "string list option"
  st_documents :: "document list option"
  st_answer :: "answer_value option"
  st_sources :: "source list option"
  st_error :: "string option"

definition empty_dict :: state_dict where
  "empty_dict = \<lparr>st_query = None, st_search_results = None, st_documents = None,
     st_answer = None, st_sources = None, st_error = None\<rparr>"

definition get_query :: "state_dict \<Rightarrow> string" where
  "get_query d = (case st_query d of None \<Rightarrow> [] | Some q \<Rightarrow> q)"

definition get_search_results :: "state_dict \<Rightarrow> string list" where
  "get_search_results d = (case st_search_results d of None \<Rightarrow> [] | Some r \<Rightarrow> r)"

definition get_documents :: "state_dict \<Rightarrow> document list" where
  "get_documents d = (case st_documents d of None \<Rightarrow> [] | Some r \<Rightarrow> r)"

section \<open>Python list and string primitives\<close>

text \<open>\<^verbatim>\<open>xs[:n]\<close>: a negative bound counts from the end, and the slice never raises.\<close>

definition slice_to :: "int \<Rightarrow> 'a list \<Rightarrow> 'a list" where
  "slice_to n xs = (if 0 \<le> n then take (nat n) xs else take (nat (int (length xs) + n)) xs)"

text \<open>\<^verbatim>\<open>xs[-n:]\<close> for a positive literal \<open>n\<close>: the last \<open>n\<close> elements, all of them when there are fewer.\<close>

definition slice_last :: "nat \<Rightarrow> 'a list \<Rightarrow> 'a list" where
  "slice_last n xs = drop (length xs - n) xs"

text \<open>
  \<^verbatim>\<open>str.isspace\<close> on the characters below 256, and \<^verbatim>\<open>str.split()\<close> without argument:
  the maximal runs of non-whitespace characters, in order. \<open>split_from cur s\<close> carries the
  token being read.
\<close>

definition is_space :: "char \<Rightarrow> bool" where
  "is_space c = ((of_char c :: nat) \<in> {9, 10, 11, 12, 13, 28, 29, 30, 31, 32, 133, 160})"

fun split_from :: "string \<Rightarrow> string \<Rightarrow> string list" where
  "split_from cur [] = (if cur = [] then [] else [cur])"
| "split_from cur (c # cs) =
     (if is_space c then (if cur = [] then split_from [] cs else cur # split_from [] cs)
      else split_from (cur @ [c]) cs)"

definition split :: "string \<Rightarrow> string list" where
  "split s = split_from [] s"

section \<open>FetchStage: \<^verbatim>\<open>WikipediaSummaryNode\<close>\<close>

definition truncation_marker :: string where
  "truncation_marker = ''... [Content truncated]''"

text \<open>
  Lines 71-73 (and 86-88): \<^verbatim>\<open>content = page.content[:n]\<close>, then the marker is appended when
  \<^verbatim>\<open>len(page.content) > n\<close>.
\<close>

definition truncate_content :: "int \<Rightarrow> string \<Rightarrow> string" where
  "truncate_content n c =
     (let content = slice_to n c
      in if int (length c) > n then content @ truncation_marker else content)"

text \<open>The dict appended to \<^verbatim>\<open>documents\<close>; \<^verbatim>\<open>page.summary[:500] if page.summary else ""\<close>.\<close>

definition make_document :: "int \<Rightarrow> string \<Rightarrow> page \<Rightarrow> document" where
  "make_document n t p =
     \<lparr>doc_title = t, doc_content = truncate_content n (page_content p), doc_url = page_url p,
      doc_summary = (if page_summary p \<noteq> [] then slice_to 500 (page_summary p) else [])\<rparr>"

text \<open>
  One iteration of the loop over \<^verbatim>\<open>search_results\<close>: the documents it appends (none or one)
  and the trace after it. The disambiguation handler reads \<^verbatim>\<open>e.options[0]\<close> inside its own
  \<^verbatim>\<open>try\<close>, so an empty option list is an \<^verbatim>\<open>IndexError\<close> swallowed by the bare \<^verbatim>\<open>except\<close>,
  before any second call.
\<close>

definition fetch_title :: "providers \<Rightarrow> int \<Rightarrow> call list \<Rightarrow> string \<Rightarrow> document list \<times> call list" where
  "fetch_title ps n tr t =
     (let tr1 = tr @ [PageCall t]
      in case page_provider ps tr t of
           PageFound p \<Rightarrow> ([make_document n t p], tr1)
         | PageDisambiguation opts \<Rightarrow>
             (case opts of
                [] \<Rightarrow> ([], tr1)
              | alt # _ \<Rightarrow>
                  (let tr2 = tr1 @ [PageCall alt]
                   in case page_provider ps tr1 alt of
                        PageFound p \<Rightarrow> ([make_document n alt p], tr2)
                      | _ \<Rightarrow> ([], tr2)))
         | PageNotFound \<Rightarrow> ([], tr1)
         | PageFault msg \<Rightarrow> ([], tr1))"

fun fetch_loop :: "providers \<Rightarrow> int \<Rightarrow> call list \<Rightarrow> string list \<Rightarrow> document list \<times> call list" where
  "fetch_loop ps n tr [] = ([], tr)"
| "fetch_loop ps n tr (t # ts) =
     (let (ds, tr1) = fetch_title ps n tr t;
          (rest, tr2) = fetch_loop ps n tr1 ts
      in (ds @ rest, tr2))"

definition WikipediaSummaryNode :: "providers \<Rightarrow> int \<Rightarrow> call list \<Rightarrow> state_dict \<Rightarrow> state_dict \<times> call list" where
  "WikipediaSummaryNode ps n tr inputs =
     (let search_results = get_search_results inputs;
          query = get_query inputs
      in if search_results = []
         then (empty_dict\<lparr>st_documents := Some [], st_query := Some query,
                 st_error := Some ''No search results to process''\<rparr>, tr)
         else (let (documents, tr1) = fetch_loop ps n tr search_results
               in (empty_dict\<lparr>st_documents := Some documents, st_query := Some query\<rparr>, tr1)))"

section \<open>SearchStage: \<^verbatim>\<open>WikipediaSearchNode\<close>\<close>

text \<open>
  What the node returns for the reply that ends the \<^verbatim>\<open>try\<close> block: the normal return, or
  one of the two handlers (\<^verbatim>\<open>e.options[:max_results]\<close>; \<^verbatim>\<open>str(e)\<close> in \<^verbatim>\<open>error\<close>).
\<close>

definition search_return :: "int \<Rightarrow> string \<Rightarrow> search_reply \<Rightarrow> state_dict" where
  "search_return m query r =
     (case r of
        SearchTitles results \<Rightarrow>
          empty_dict\<lparr>st_search_results := Some results, st_query := Some query\<rparr>
      | SearchDisambiguation options \<Rightarrow>
          empty_dict\<lparr>st_search_results := Some (slice_to m options), st_query := Some query\<rparr>
      | SearchFault msg \<Rightarrow>
          empty_dict\<lparr>st_search_results := Some [], st_error := Some msg, st_query := Some query\<rparr>)"

text \<open>\<^verbatim>\<open>query.split()[0] if query.split() else query\<close>\<close>

definition simplified_query :: "string \<Rightarrow> string" where
  "simplified_query query = (case split query of [] \<Rightarrow> query | tok # _ \<Rightarrow> tok)"

definition WikipediaSearchNode :: "providers \<Rightarrow> int \<Rightarrow> call list \<Rightarrow> state_dict \<Rightarrow> state_dict \<times> call list" where
  "WikipediaSearchNode ps m tr inputs =
     (let query = get_query inputs
      in if query = []
         then (empty_dict\<lparr>st_search_results := Some [], st_error := Some ''No query provided''\<rparr>, tr)
         else (let r1 = search_provider ps tr query m;
                   tr1 = tr @ [SearchCall query m]
               in if r1 = SearchTitles []
                  then (let r2 = search_provider ps tr1 (simplified_query query) m;
                            tr2 = tr1 @ [SearchCall (simplified_query query) m]
                        in (search_return m query r2, tr2))
                  else (search_return m query r1, tr1)))"

section \<open>SynthesisStage: \<^verbatim>\<open>GPTSummarizerNode\<close>\<close>

definition newline :: char where
  "newline = CHR 0x0A"

text \<open>\<^verbatim>\<open>sep.join(parts)\<close>\<close>

fun join :: "string \<Rightarrow> string list \<Rightarrow> string" where
  "join sep [] = []"
| "join sep [p] = p"
| "join sep (p # q # ps) = p @ sep @ join sep (q # ps)"

definition context_part :: "document \<Rightarrow> string" where
  "context_part doc = ''**'' @ doc_title doc @ ''**:'' @ [newline] @ doc_content doc"

definition source_of :: "document \<Rightarrow> source" where
  "source_of doc = \<lparr>src_title = doc_title doc, src_url = doc_url doc, src_summary = doc_summary doc\<rparr>"

definition build_prompt :: "string \<Rightarrow> string \<Rightarrow> string" where
  "build_prompt query context =
     ''You are a knowledgeable Wikipedia research assistant. Answer the user's question based ONLY on the provided Wikipedia content. ''
     @ [newline, newline]
     @ ''Guidelines:'' @ [newline]
     @ ''- Provide a comprehensive but concise answer'' @ [newline]
     @ ''- Use information from multiple sources when relevant'' @ [newline]
     @ ''- If the information is insufficient, acknowledge the limitations'' @ [newline]
     @ ''- Structure your response clearly with proper formatting'' @ [newline]
     @ ''- Include specific details and examples when available'' @ [newline, newline]
     @ ''User Question: '' @ query @ [newline, newline]
     @ ''Wikipedia Content:'' @ [newline]
     @ context @ [newline, newline]
     @ ''Please provide a detailed answer based on the above information:''"

definition no_documents_answer :: string where
  "no_documents_answer =
     ''I couldn't find any relevant Wikipedia articles for your query. Please try rephrasing your question or using different keywords.''"

definition generation_error_prefix :: string where
  "generation_error_prefix = ''I encountered an error while processing your request: ''"

text \<open>
  The loop over \<^verbatim>\<open>documents\<close> appends one context part and one source per document, in
  order; the single generation request is made inside the \<^verbatim>\<open>try\<close>.
\<close>

definition GPTSummarizerNode :: "providers \<Rightarrow> call list \<Rightarrow> state_dict \<Rightarrow> state_dict \<times> call list" where
  "GPTSummarizerNode ps tr inputs =
     (let query = get_query inputs;
          documents = get_documents inputs
      in if query = []
         then (empty_dict\<lparr>st_answer := Some (Text ''No query provided''), st_sources := Some []\<rparr>, tr)
         else if documents = []
         then (empty_dict\<lparr>st_answer := Some (Text no_documents_answer), st_sources := Some []\<rparr>, tr)
         else (let context_parts = map context_part documents;
                   sources = map source_of documents;
                   context = join [newline, newline] context_parts;
                   prompt = build_prompt query context;
                   tr1 = tr @ [GenerateCall prompt]
               in case gen_provider ps tr prompt of
                    GenText answer \<Rightarrow>
                      (empty_dict\<lparr>st_answer := Some (Text answer), st_sources := Some sources,
                         st_query := Some query\<rparr>, tr1)
                  | GenNone \<Rightarrow>
                      (empty_dict\<lparr>st_answer := Some NoneValue, st_sources := Some sources,
                         st_query := Some query\<rparr>, tr1)
                  | GenFault msg \<Rightarrow>
                      (empty_dict\<lparr>st_answer := Some (Text (generation_error_prefix @ msg)),
                         st_sources := Some sources, st_query := Some query\<rparr>, tr1)))"

section \<open>PipelineDriver: \<^verbatim>\<open>WikipediaResearchWorkflow\<close>\<close>

text \<open>
  The compiled graph is the path search, summarize, generate\_answer. Each node receives
  the whole state and the keys it returns overwrite the state's (\<^verbatim>\<open>ResearchState\<close> declares
  no reducer); the other keys are kept.
\<close>

record config =
  max_results :: int
  max_content_length :: int

definition merge_state :: "state_dict \<Rightarrow> state_dict \<Rightarrow> state_dict" where
  "merge_state s u =
     \<lparr>st_query = (case st_query u of None \<Rightarrow> st_query s | Some v \<Rightarrow> Some v),
      st_search_results = (case st_search_results u of None \<Rightarrow> st_search_results s | Some v \<Rightarrow> Some v),
      st_documents = (case st_documents u of None \<Rightarrow> st_documents s | Some v \<Rightarrow> Some v),
      st_answer = (case st_answer u of None \<Rightarrow> st_answer s | Some v \<Rightarrow> Some v),
      st_sources = (case st_sources u of None \<Rightarrow> st_sources s | Some v \<Rightarrow> Some v),
      st_error = (case st_error u of None \<Rightarrow> st_error s | Some v \<Rightarrow> Some v)\<rparr>"

definition initial_state :: "string \<Rightarrow> state_dict" where
  "initial_state query =
     \<lparr>st_query = Some query, st_search_results = Some [], st_documents = Some [],
      st_answer = Some (Text []), st_sources = Some [], st_error = Some []\<rparr>"

text \<open>
  \<^verbatim>\<open>self.workflow.invoke\<close>: the result is the final state (\<open>Inr\<close>), or the message of an
  exception that left a node (\<open>Inl\<close>). Every node of this graph returns a dict on each of
  its paths, having caught the faults of its own provider, so the result is a state.
\<close>

definition workflow_invoke :: "providers \<Rightarrow> config \<Rightarrow> call list \<Rightarrow> state_dict \<Rightarrow> (string + state_dict) \<times> call list" where
  "workflow_invoke ps cfg tr s0 =
     (let (u1, tr1) = WikipediaSearchNode ps (max_results cfg) tr s0;
          s1 = merge_state s0 u1;
          (u2, tr2) = WikipediaSummaryNode ps (max_content_length cfg) tr1 s1;
          s2 = merge_state s1 u2;
          (u3, tr3) = GPTSummarizerNode ps tr2 s2;
          s3 = merge_state s2 u3
      in (Inr s3, tr3))"

text \<open>The state the \<^verbatim>\<open>except\<close> handler of \<^verbatim>\<open>research\<close> builds from the message of the exception.\<close>

definition research_error_state :: "string \<Rightarrow> string \<Rightarrow> state_dict" where
  "research_error_state query msg =
     \<lparr>st_query = Some query, st_search_results = Some [], st_documents = Some [],
      st_answer = Some (Text (''An error occurred during research: '' @ msg)),
      st_sources = Some [], st_error = Some msg\<rparr>"

text \<open>\<^verbatim>\<open>research\<close> runs the graph from the initial state, here with an empty trace.\<close>

definition research :: "providers \<Rightarrow> config \<Rightarrow> string \<Rightarrow> state_dict \<times> call list" where
  "research ps cfg query =
     (case workflow_invoke ps cfg [] (initial_state query) of
        (Inr result, tr) \<Rightarrow> (result, tr)
      | (Inl msg, tr) \<Rightarrow> (research_error_state query msg, tr))"

text \<open>The state and the trace after the first node of a run, and after the second.\<close>

definition after_search :: "providers \<Rightarrow> config \<Rightarrow> string \<Rightarrow> state_dict \<times> call list" where
  "after_search ps cfg query =
     (let (u1, tr1) = WikipediaSearchNode ps (max_results cfg) [] (initial_state query)
      in (merge_state (initial_state query) u1, tr1))"

definition after_fetch :: "providers \<Rightarrow> config \<Rightarrow> string \<Rightarrow> state_dict \<times> call list" where
  "after_fetch ps cfg query =
     (let (s1, tr1) = after_search ps cfg query;
          (u2, tr2) = WikipediaSummaryNode ps (max_content_length cfg) tr1 s1
      in (merge_state s1 u2, tr2))"

section \<open>Session history: \<^verbatim>\<open>add_to_history\<close>\<close>

record history_entry =
  h_query :: string
  h_result :: state_dict
  h_timestamp :: string

text \<open>The keys of \<^verbatim>\<open>st.session_state\<close> the function reads or writes; a key may be absent.\<close>

record session_state =
  research_history :: "history_entry list option"
  timestamp :: "string option"

definition add_to_history :: "string \<Rightarrow> state_dict \<Rightarrow> session_state \<Rightarrow> session_state" where
  "add_to_history query result ss =
     (let h0 = (case research_history ss of None \<Rightarrow> [] | Some h \<Rightarrow> h);
          entry = \<lparr>h_query = query, h_result = result,
                   h_timestamp = (case timestamp ss of None \<Rightarrow> [] | Some t \<Rightarrow> t)\<rparr>;
          h1 = h0 @ [entry]
      in if length h1 > 10
         then ss\<lparr>research_history := Some (slice_last 10 h1)\<rparr>
         else ss\<lparr>research_history := Some h1\<rparr>)"

text \<open>A sequence of requests, each recorded by one call of \<^verbatim>\<open>add_to_history\<close>, oldest first.\<close>

fun add_requests :: "(string \<times> state_dict) list \<Rightarrow> session_state \<Rightarrow> session_state" where
  "add_requests [] ss = ss"
| "add_requests ((q, r) # rest) ss = add_requests rest (add_to_history q r ss)"

text \<open>The history a session holds, and the entry a request adds in that session.\<close>

definition get_history :: "session_state \<Rightarrow> history_entry list" where
  "get_history ss = (case research_history ss of None \<Rightarrow> [] | Some h \<Rightarrow> h)"

definition entry_of :: "session_state \<Rightarrow> string \<times> state_dict \<Rightarrow> history_entry" where
  "entry_of ss qr = \<lparr>h_query = fst qr, h_result = snd qr,
      h_timestamp = (case timestamp ss of None \<Rightarrow> [] | Some t \<Rightarrow> t)\<rparr>"

section \<open>Concrete collaborators and inputs\<close>

text \<open>Providers whose replies depend neither on the request nor on the earlier calls.\<close>

definition constant_providers :: "search_reply \<Rightarrow> page_reply \<Rightarrow> gen_reply \<Rightarrow> providers" where
  "constant_providers s p g =
     \<lparr>search_provider = (\<lambda>tr t m. s), page_provider = (\<lambda>tr t. p), gen_provider = (\<lambda>tr prompt. g)\<rparr>"

definition example_page :: page where
  "example_page = \<lparr>page_content = ''abcde'', page_url = ''u'', page_summary = ''s''\<rparr>"

definition example_document :: document where
  "example_document = \<lparr>doc_title = ''T'', doc_content = ''abc'', doc_url = ''u'', doc_summary = ''s''\<rparr>"

definition example_config :: config where
  "example_config = \<lparr>max_results = 3, max_content_length = 3\<rparr>"

definition example_providers :: providers where
  "example_providers =
     constant_providers (SearchTitles [''A'', ''B'']) (PageFound example_page) (GenText ''ok'')"

text \<open>A search provider with no result for the first request and one title afterwards.\<close>

definition retry_providers :: providers where
  "retry_providers =
     \<lparr>search_provider = (\<lambda>tr t m. if tr = [] then SearchTitles [] else SearchTitles [''A'']),
      page_provider = (\<lambda>tr t. PageNotFound),
      gen_provider = (\<lambda>tr prompt. GenText ''x'')\<rparr>"

text \<open>A search provider with no result for the first request and a fault afterwards.\<close>

definition failing_retry_providers :: providers where
  "failing_retry_providers =
     \<lparr>search_provider = (\<lambda>tr t m. if tr = [] then SearchTitles [] else SearchFault ''boom''),
      page_provider = (\<lambda>tr t. PageNotFound),
      gen_provider = (\<lambda>tr prompt. GenText ''x'')\<rparr>"


definition fresh_session :: session_state where
  "fresh_session = \<lparr>research_history = None, timestamp = None\<rparr>"

definition twelve_requests :: "(string \<times> state_dict) list" where
  "twelve_requests =
     map (\<lambda>q. (q, empty_dict))
       [''q1'', ''q2'', ''q3'', ''q4'', ''q5'', ''q6'', ''q7'', ''q8'', ''q9'', ''q10'', ''q11'', ''q12'']"

section \<open>Facts about the stages\<close>

subsection \<open>Fetching\<close>

lemma fetch_title_length: "length (fst (fetch_title ps n tr t)) \<le> 1"
  by (simp add: fetch_title_def Let_def split: page_reply.splits list.splits)

lemma fetch_loop_length: "length (fst (fetch_loop ps n tr ts)) \<le> length ts"
proof (induction ts arbitrary: tr)
  case Nil
  show ?case by simp
next
  case (Cons t ts)
  obtain ds tr1 where a: "fetch_title ps n tr t = (ds, tr1)"
    by (cases "fetch_title ps n tr t")
  obtain rest tr2 where b: "fetch_loop ps n tr1 ts = (rest, tr2)"
    by (cases "fetch_loop ps n tr1 ts")
  have "length ds \<le> 1"
    using fetch_title_length [of ps n tr t] a by simp
  moreover have "length rest \<le> length ts"
    using Cons.IH [of tr1] b by simp
  ultimately show ?case using a b by simp
qed

lemma fetch_title_docs:
  "set (fst (fetch_title ps n tr t))
     \<subseteq> {make_document n t' p' | tr' t' p'. page_provider ps tr' t' = PageFound p'}"
  by (auto simp: fetch_title_def Let_def split: page_reply.splits list.splits)

lemma fetch_loop_docs:
  "set (fst (fetch_loop ps n tr ts))
     \<subseteq> {make_document n t' p' | tr' t' p'. page_provider ps tr' t' = PageFound p'}"
proof (induction ts arbitrary: tr)
  case Nil
  show ?case by simp
next
  case (Cons t ts)
  obtain ds tr1 where a: "fetch_title ps n tr t = (ds, tr1)"
    by (cases "fetch_title ps n tr t")
  obtain rest tr2 where b: "fetch_loop ps n tr1 ts = (rest, tr2)"
    by (cases "fetch_loop ps n tr1 ts")
  have "set ds \<subseteq> {make_document n t' p' | tr' t' p'. page_provider ps tr' t' = PageFound p'}"
    using fetch_title_docs [of ps n tr t] a by simp
  moreover have "set rest \<subseteq> {make_document n t' p' | tr' t' p'. page_provider ps tr' t' = PageFound p'}"
    using Cons.IH [of tr1] b by simp
  ultimately show ?case using a b by simp
qed

lemma fetch_loop_append:
  "fetch_loop ps n tr (ts1 @ ts2) =
     (fst (fetch_loop ps n tr ts1) @ fst (fetch_loop ps n (snd (fetch_loop ps n tr ts1)) ts2),
      snd (fetch_loop ps n (snd (fetch_loop ps n tr ts1)) ts2))"
  by (induction ts1 arbitrary: tr) (simp_all add: case_prod_unfold Let_def)

lemma fetch_title_found:
  "page_provider ps tr t = PageFound p \<Longrightarrow>
     fetch_title ps n tr t = ([make_document n t p], tr @ [PageCall t])"
  by (simp add: fetch_title_def Let_def)

lemma fetch_title_alternative:
  "page_provider ps tr t = PageDisambiguation (alt # others) \<Longrightarrow>
   page_provider ps (tr @ [PageCall t]) alt = PageFound p \<Longrightarrow>
     fetch_title ps n tr t = ([make_document n alt p], tr @ [PageCall t, PageCall alt])"
  by (simp add: fetch_title_def Let_def)

lemma fetch_loop_found:
  assumes "page_provider ps (snd (fetch_loop ps n tr ts1)) t = PageFound p"
  shows "fst (fetch_loop ps n tr (ts1 @ t # ts2)) =
           fst (fetch_loop ps n tr ts1) @ make_document n t p
             # fst (fetch_loop ps n (snd (fetch_loop ps n tr ts1) @ [PageCall t]) ts2)"
  using fetch_title_found [OF assms, of n]
  by (simp add: fetch_loop_append case_prod_unfold Let_def)

subsection \<open>The keys each node returns\<close>

lemma search_node_fields:
  "st_documents (fst (WikipediaSearchNode ps m tr i)) = None"
  "st_answer (fst (WikipediaSearchNode ps m tr i)) = None"
  "st_sources (fst (WikipediaSearchNode ps m tr i)) = None"
  by (simp_all add: WikipediaSearchNode_def search_return_def empty_dict_def Let_def
      split: search_reply.splits)

lemma search_node_results:
  "\<exists>rs. st_search_results (fst (WikipediaSearchNode ps m tr i)) = Some rs"
  by (simp add: WikipediaSearchNode_def search_return_def empty_dict_def Let_def
      split: search_reply.splits)

lemma summary_node_fields:
  "st_search_results (fst (WikipediaSummaryNode ps n tr i)) = None"
  "st_answer (fst (WikipediaSummaryNode ps n tr i)) = None"
  "st_sources (fst (WikipediaSummaryNode ps n tr i)) = None"
  "st_query (fst (WikipediaSummaryNode ps n tr i)) = Some (get_query i)"
  by (simp_all add: WikipediaSummaryNode_def empty_dict_def Let_def split: prod.splits)

lemma summary_node_documents:
  "\<exists>ds. st_documents (fst (WikipediaSummaryNode ps n tr i)) = Some ds
        \<and> length ds \<le> length (get_search_results i)"
  using fetch_loop_length [of ps n tr "get_search_results i"]
  by (auto simp add: WikipediaSummaryNode_def empty_dict_def Let_def split: prod.splits)

lemma summary_node_found:
  assumes "get_search_results inputs = ts1 @ t # ts2"
    and "page_provider ps (snd (fetch_loop ps n tr ts1)) t = PageFound p"
  shows "st_documents (fst (WikipediaSummaryNode ps n tr inputs)) =
           Some (fst (fetch_loop ps n tr ts1) @ make_document n t p
             # fst (fetch_loop ps n (snd (fetch_loop ps n tr ts1) @ [PageCall t]) ts2))"
  using assms(1) fetch_loop_found [OF assms(2), of ts2]
  by (simp add: WikipediaSummaryNode_def Let_def empty_dict_def case_prod_unfold)

lemma summary_node_count:
  "length (get_documents (fst (WikipediaSummaryNode ps n tr i))) \<le> length (get_search_results i)"
  using summary_node_documents [of ps n tr i] by (auto simp: get_documents_def)

lemma gpt_node_fields:
  "st_search_results (fst (GPTSummarizerNode ps tr i)) = None"
  "st_documents (fst (GPTSummarizerNode ps tr i)) = None"
  by (simp_all add: GPTSummarizerNode_def empty_dict_def Let_def split: gen_reply.splits)

lemma gpt_node_sources:
  assumes "get_query i \<noteq> []" and "get_documents i \<noteq> []"
  shows "st_sources (fst (GPTSummarizerNode ps tr i)) = Some (map source_of (get_documents i))"
  using assms
  by (simp add: GPTSummarizerNode_def Let_def empty_dict_def split: gen_reply.splits)

lemma gpt_node_sources_any:
  "st_sources (fst (GPTSummarizerNode ps tr i)) = Some (map source_of (get_documents i))
   \<or> st_sources (fst (GPTSummarizerNode ps tr i)) = Some []"
  by (simp add: GPTSummarizerNode_def Let_def empty_dict_def split: gen_reply.splits)

lemma gpt_node_answer:
  assumes "\<And>tr p. gen_provider ps tr p \<noteq> GenText []"
    and "\<And>tr p. gen_provider ps tr p \<noteq> GenNone"
  shows "\<exists>a. st_answer (fst (GPTSummarizerNode ps tr i)) = Some (Text a) \<and> a \<noteq> []"
proof (cases "gen_provider ps tr (build_prompt (get_query i)
                (join [newline, newline] (map context_part (get_documents i))))")
  case (GenText a)
  then have "a \<noteq> []" using assms(1) by metis
  then show ?thesis using GenText
    by (simp add: GPTSummarizerNode_def Let_def empty_dict_def no_documents_answer_def)
next
  case GenNone
  then show ?thesis using assms(2) by metis
next
  case (GenFault msg)
  then show ?thesis
    by (simp add: GPTSummarizerNode_def Let_def empty_dict_def no_documents_answer_def
        generation_error_prefix_def)
qed

subsection \<open>The search bound\<close>

lemma slice_to_length: "0 \<le> m \<Longrightarrow> int (length (slice_to m xs)) \<le> m"
  by (simp add: slice_to_def)

lemma search_return_bound:
  assumes "0 \<le> m" and "\<And>rs. r = SearchTitles rs \<Longrightarrow> int (length rs) \<le> m"
  shows "int (length (get_search_results (search_return m q r))) \<le> m"
  using assms slice_to_length [of m]
  by (cases r) (simp_all add: search_return_def get_search_results_def empty_dict_def)

lemma search_node_bound:
  assumes "0 \<le> m"
    and "\<And>tr t rs. search_provider ps tr t m = SearchTitles rs \<Longrightarrow> int (length rs) \<le> m"
  shows "int (length (get_search_results (fst (WikipediaSearchNode ps m tr i)))) \<le> m"
  using assms(1) search_return_bound [OF assms(1)] assms(2)
  by (simp add: WikipediaSearchNode_def Let_def get_search_results_def empty_dict_def)

subsection \<open>The run, node by node\<close>

lemma merge_get:
  "st_search_results (merge_state s u) =
     (case st_search_results u of None \<Rightarrow> st_search_results s | Some v \<Rightarrow> Some v)"
  "st_documents (merge_state s u) =
     (case st_documents u of None \<Rightarrow> st_documents s | Some v \<Rightarrow> Some v)"
  "st_answer (merge_state s u) = (case st_answer u of None \<Rightarrow> st_answer s | Some v \<Rightarrow> Some v)"
  "st_sources (merge_state s u) = (case st_sources u of None \<Rightarrow> st_sources s | Some v \<Rightarrow> Some v)"
  "st_query (merge_state s u) = (case st_query u of None \<Rightarrow> st_query s | Some v \<Rightarrow> Some v)"
  "st_error (merge_state s u) = (case st_error u of None \<Rightarrow> st_error s | Some v \<Rightarrow> Some v)"
  by (simp_all add: merge_state_def)

lemma research_steps:
  "research ps cfg q =
     (let (s2, tr2) = after_fetch ps cfg q;
          (u3, tr3) = GPTSummarizerNode ps tr2 s2
      in (merge_state s2 u3, tr3))"
  by (simp add: research_def workflow_invoke_def after_fetch_def after_search_def Let_def
      split: prod.splits)

lemma after_search_query: "get_query (fst (after_search ps cfg q)) = q"
  by (simp add: after_search_def get_query_def merge_get initial_state_def WikipediaSearchNode_def
      search_return_def empty_dict_def Let_def split: prod.splits search_reply.splits)

lemma after_search_results:
  "get_search_results (fst (after_search ps cfg q))
     = get_search_results (fst (WikipediaSearchNode ps (max_results cfg) [] (initial_state q)))"
  using search_node_results [of ps "max_results cfg" "[]" "initial_state q"]
  by (auto simp: after_search_def get_search_results_def merge_get split: prod.splits)

lemma after_fetch_query: "get_query (fst (after_fetch ps cfg q)) = q"
proof -
  obtain s1 tr1 where a: "after_search ps cfg q = (s1, tr1)"
    by (cases "after_search ps cfg q")
  obtain u2 tr2 where b: "WikipediaSummaryNode ps (max_content_length cfg) tr1 s1 = (u2, tr2)"
    by (cases "WikipediaSummaryNode ps (max_content_length cfg) tr1 s1")
  have "get_query s1 = q" using after_search_query [of ps cfg q] a by simp
  moreover have "st_query u2 = Some (get_query s1)"
    using summary_node_fields(4) [of ps "max_content_length cfg" tr1 s1] b by simp
  ultimately show ?thesis using a b by (simp add: after_fetch_def get_query_def merge_get)
qed

lemma after_fetch_search_results:
  "get_search_results (fst (after_fetch ps cfg q)) = get_search_results (fst (after_search ps cfg q))"
proof -
  obtain s1 tr1 where a: "after_search ps cfg q = (s1, tr1)"
    by (cases "after_search ps cfg q")
  obtain u2 tr2 where b: "WikipediaSummaryNode ps (max_content_length cfg) tr1 s1 = (u2, tr2)"
    by (cases "WikipediaSummaryNode ps (max_content_length cfg) tr1 s1")
  have "st_search_results u2 = None"
    using summary_node_fields(1) [of ps "max_content_length cfg" tr1 s1] b by simp
  then show ?thesis using a b by (simp add: after_fetch_def get_search_results_def merge_get)
qed

lemma after_fetch_counts:
  "length (get_documents (fst (after_fetch ps cfg q)))
     \<le> length (get_search_results (fst (after_search ps cfg q)))"
proof -
  obtain s1 tr1 where a: "after_search ps cfg q = (s1, tr1)"
    by (cases "after_search ps cfg q")
  obtain u2 tr2 where b: "WikipediaSummaryNode ps (max_content_length cfg) tr1 s1 = (u2, tr2)"
    by (cases "WikipediaSummaryNode ps (max_content_length cfg) tr1 s1")
  obtain ds where c: "st_documents u2 = Some ds" "length ds \<le> length (get_search_results s1)"
    using summary_node_documents [of ps "max_content_length cfg" tr1 s1] b by auto
  show ?thesis using a b c by (simp add: after_fetch_def get_documents_def merge_get)
qed

lemma research_keeps:
  "get_search_results (fst (research ps cfg q)) = get_search_results (fst (after_fetch ps cfg q))"
  "get_documents (fst (research ps cfg q)) = get_documents (fst (after_fetch ps cfg q))"
proof -
  obtain s2 tr2 where a: "after_fetch ps cfg q = (s2, tr2)"
    by (cases "after_fetch ps cfg q")
  obtain u3 tr3 where b: "GPTSummarizerNode ps tr2 s2 = (u3, tr3)"
    by (cases "GPTSummarizerNode ps tr2 s2")
  have c: "st_search_results u3 = None" "st_documents u3 = None"
    using gpt_node_fields [of ps tr2 s2] b by simp_all
  show "get_search_results (fst (research ps cfg q)) = get_search_results (fst (after_fetch ps cfg q))"
    using a b c by (simp add: research_steps get_search_results_def merge_get)
  show "get_documents (fst (research ps cfg q)) = get_documents (fst (after_fetch ps cfg q))"
    using a b c by (simp add: research_steps get_documents_def merge_get)
qed

lemma research_sources:
  "st_sources (fst (research ps cfg q))
     = Some (map source_of (get_documents (fst (research ps cfg q))))"
proof -
  obtain s2 tr2 where a: "after_fetch ps cfg q = (s2, tr2)"
    by (cases "after_fetch ps cfg q")
  obtain u3 tr3 where b: "GPTSummarizerNode ps tr2 s2 = (u3, tr3)"
    by (cases "GPTSummarizerNode ps tr2 s2")
  have q: "get_query s2 = q" using after_fetch_query [of ps cfg q] a by simp
  have docs: "get_documents (fst (research ps cfg q)) = get_documents s2"
    using a by (simp add: research_keeps)
  have "st_sources u3 = Some (map source_of (get_documents s2))"
  proof (cases "q = [] \<or> get_documents s2 = []")
    case False
    then show ?thesis using gpt_node_sources [of s2 ps tr2] q b by simp
  next
    case True
    have "get_documents s2 = []"
    proof (cases "q = []")
      case True
      have "length (get_documents (fst (after_fetch ps cfg q)))
              \<le> length (get_search_results (fst (after_search ps cfg q)))"
        by (rule after_fetch_counts)
      moreover have "get_search_results
          (fst (WikipediaSearchNode ps (max_results cfg) [] (initial_state []))) = []"
        by (simp add: WikipediaSearchNode_def initial_state_def get_query_def
            get_search_results_def empty_dict_def)
      then have "get_search_results (fst (after_search ps cfg q)) = []"
        using True by (simp only: after_search_results)
      ultimately show ?thesis using a by simp
    next
      case False
      then show ?thesis using True by simp
    qed
    then show ?thesis using b gpt_node_sources_any [of ps tr2 s2] by auto
  qed
  then show ?thesis using a b docs by (simp add: research_steps merge_get)
qed

subsection \<open>The first token of a query\<close>

lemma split_from_token:
  "cur \<noteq> [] \<Longrightarrow> \<exists>rest. split_from cur s = (cur @ takeWhile (\<lambda>c. \<not> is_space c) s) # rest"
proof (induction s arbitrary: cur)
  case Nil
  then show ?case by simp
next
  case (Cons c cs)
  show ?case
  proof (cases "is_space c")
    case True
    then show ?thesis using Cons.prems by simp
  next
    case False
    then show ?thesis using Cons.IH [of "cur @ [c]"] by simp
  qed
qed

lemma split_from_spaces: "list_all is_space s \<Longrightarrow> split_from [] s = []"
  by (induction s) auto

lemma split_from_first:
  "\<not> list_all is_space s \<Longrightarrow>
     \<exists>rest. split_from [] s = takeWhile (\<lambda>c. \<not> is_space c) (dropWhile is_space s) # rest"
proof (induction s)
  case Nil
  then show ?case by simp
next
  case (Cons c cs)
  show ?case
  proof (cases "is_space c")
    case True
    then show ?thesis using Cons by simp
  next
    case False
    then show ?thesis using split_from_token [of "[c]" cs] by simp
  qed
qed

lemma simplified_query_eq:
  "simplified_query q =
     (if list_all is_space q then q else takeWhile (\<lambda>c. \<not> is_space c) (dropWhile is_space q))"
  using split_from_spaces [of q] split_from_first [of q]
  by (auto simp: simplified_query_def split_def)

subsection \<open>The history\<close>

lemma add_to_history_eq:
  "add_to_history q r ss =
     ss\<lparr>research_history := Some (slice_last 10 (get_history ss @ [entry_of ss (q, r)]))\<rparr>"
  by (simp add: add_to_history_def get_history_def entry_of_def slice_last_def Let_def)

lemma slice_last_twice: "slice_last n (slice_last n xs @ ys) = slice_last n (xs @ ys)"
  by (cases "n \<le> length xs") (simp_all add: slice_last_def add.commute)

lemma add_requests_history:
  "reqs \<noteq> [] \<Longrightarrow>
     add_requests reqs ss =
       ss\<lparr>research_history := Some (slice_last 10 (get_history ss @ map (entry_of ss) reqs))\<rparr>"
proof (induction reqs arbitrary: ss)
  case Nil
  then show ?case by simp
next
  case (Cons qr reqs)
  obtain q r where qr: "qr = (q, r)" by (cases qr)
  let ?ss1 = "add_to_history q r ss"
  have e: "entry_of ?ss1 = entry_of ss"
    by (rule ext) (simp add: add_to_history_eq entry_of_def)
  have h: "get_history ?ss1 = slice_last 10 (get_history ss @ [entry_of ss (q, r)])"
    by (simp add: add_to_history_eq get_history_def)
  show ?case
  proof (cases "reqs = []")
    case True
    then show ?thesis using qr by (simp add: add_to_history_eq)
  next
    case False
    have "add_requests (qr # reqs) ss = add_requests reqs ?ss1"
      using qr by simp
    also have "\<dots> = ?ss1\<lparr>research_history :=
          Some (slice_last 10 (get_history ?ss1 @ map (entry_of ?ss1) reqs))\<rparr>"
      using False by (rule Cons.IH)
    also have "\<dots> = ?ss1\<lparr>research_history :=
          Some (slice_last 10 (get_history ss @ map (entry_of ss) (qr # reqs)))\<rparr>"
      by (simp only: e h slice_last_twice) (simp add: qr)
    also have "\<dots> = ss\<lparr>research_history :=
          Some (slice_last 10 (get_history ss @ map (entry_of ss) (qr # reqs)))\<rparr>"
      by (simp add: add_to_history_eq)
    finally show ?thesis .
  qed
qed

section \<open>The claims\<close>

subsection \<open>C1: document and result counts\<close>

text \<open>
  C1. FetchStage appends at most one document per title, so it returns at most as many
  documents as it is given search results, and in the terminal state of every run,
  whatever the configuration and the providers, there are at most as many documents as
  search results. The number of search results is at most \<^verbatim>\<open>max_results\<close> when
  \<^verbatim>\<open>max_results\<close> is not negative and the search provider returns at most as many titles
  as it is asked for: the node caps the alternatives of a disambiguation fault itself,
  and returns a result list of the provider as it is.
\<close>

theorem pipeline_counts:
  "length (fst (fetch_title ps n tr t)) \<le> 1
   \<and> length (get_documents (fst (WikipediaSummaryNode ps n tr inputs)))
        \<le> length (get_search_results inputs)
   \<and> length (get_documents (fst (research ps cfg q)))
        \<le> length (get_search_results (fst (research ps cfg q)))
   \<and> (0 \<le> max_results cfg
        \<and> (\<forall>tr t rs. search_provider ps tr t (max_results cfg) = SearchTitles rs
              \<longrightarrow> int (length rs) \<le> max_results cfg)
        \<longrightarrow> int (length (get_search_results (fst (research ps cfg q)))) \<le> max_results cfg)"
proof -
  have "length (get_documents (fst (research ps cfg q)))
          \<le> length (get_search_results (fst (research ps cfg q)))"
    using after_fetch_counts [of ps cfg q]
    by (simp add: research_keeps after_fetch_search_results)
  moreover have "int (length (get_search_results (fst (research ps cfg q)))) \<le> max_results cfg"
    if "0 \<le> max_results cfg"
      and "\<forall>tr t rs. search_provider ps tr t (max_results cfg) = SearchTitles rs
              \<longrightarrow> int (length rs) \<le> max_results cfg"
    using search_node_bound [of "max_results cfg" ps "[]" "initial_state q"] that
    by (simp add: research_keeps after_fetch_search_results after_search_results)
  ultimately show ?thesis
    using fetch_title_length [of ps n tr t] summary_node_count [of ps n tr inputs] by blast
qed

theorem pipeline_counts_witness:
  "get_search_results (fst (research example_providers example_config ''q'')) = [''A'', ''B'']
   \<and> length (get_documents (fst (research example_providers example_config ''q'')))
        \<le> length (get_search_results (fst (research example_providers example_config ''q'')))
   \<and> int (length (get_search_results (fst (research example_providers example_config ''q''))))
        \<le> max_results example_config"
proof -
  have a: "0 \<le> max_results example_config"
    by (simp add: example_config_def)
  have b: "\<forall>tr t rs. search_provider example_providers tr t (max_results example_config) = SearchTitles rs
           \<longrightarrow> int (length rs) \<le> max_results example_config"
    by (auto simp: example_providers_def constant_providers_def example_config_def)
  have c: "get_search_results (fst (research example_providers example_config ''q'')) = [''A'', ''B'']"
    by (simp add: example_providers_def WikipediaSearchNode_def constant_providers_def initial_state_def get_query_def
      search_return_def empty_dict_def Let_def research_def workflow_invoke_def merge_state_def
      WikipediaSummaryNode_def get_search_results_def fetch_title_def GPTSummarizerNode_def
      get_documents_def)
  show ?thesis
    using pipeline_counts [where ps = example_providers and cfg = example_config and q = "''q''"] a b c
    by blast
qed

text \<open>
  With \<^verbatim>\<open>max_results = 1\<close> and a search provider that answers with two titles, the
  terminal state holds both titles.
\<close>

theorem pipeline_counts_counterexample:
  "max_results \<lparr>max_results = 1, max_content_length = 3000\<rparr> = 1
   \<and> get_search_results (fst (research
         (constant_providers (SearchTitles [''A'', ''B'']) PageNotFound (GenText ''x''))
         \<lparr>max_results = 1, max_content_length = 3000\<rparr> ''q'')) = [''A'', ''B'']
   \<and> \<not> int (length (get_search_results (fst (research
         (constant_providers (SearchTitles [''A'', ''B'']) PageNotFound (GenText ''x''))
         \<lparr>max_results = 1, max_content_length = 3000\<rparr> ''q'')))) \<le> 1"
  by (simp add: WikipediaSearchNode_def constant_providers_def initial_state_def get_query_def
      search_return_def empty_dict_def Let_def research_def workflow_invoke_def merge_state_def
      WikipediaSummaryNode_def get_search_results_def fetch_title_def GPTSummarizerNode_def
      get_documents_def)

subsection \<open>C2: truncation of the stored body\<close>

text \<open>
  C2. With a \<^verbatim>\<open>max_content_length\<close> \<open>n\<close> that is not negative: the body of the document built
  from a page is the first \<open>n\<close> characters of the content followed by
  \<^verbatim>\<open>... [Content truncated]\<close> when the content is strictly longer than \<open>n\<close>, and the content
  verbatim when it has at most \<open>n\<close> characters. A title whose fetch returns a page
  contributes exactly the document built from that page, and so does a title whose first
  alternative is fetched after a disambiguation; in the output of FetchStage the
  document of a fetched title stands between the documents of the titles before it and
  those of the titles after it; and every document FetchStage emits is built this way
  from a page the provider returned.
\<close>

theorem truncated_body:
  assumes "0 \<le> n"
  shows "(\<forall>t'. doc_content (make_document n t' p) =
           (if int (length (page_content p)) > n
            then take (nat n) (page_content p) @ ''... [Content truncated]''
            else page_content p))
       \<and> (page_provider ps tr t = PageFound p \<longrightarrow>
            fetch_title ps n tr t = ([make_document n t p], tr @ [PageCall t]))
       \<and> (page_provider ps tr t = PageDisambiguation (alt # others)
            \<and> page_provider ps (tr @ [PageCall t]) alt = PageFound p \<longrightarrow>
            fetch_title ps n tr t = ([make_document n alt p], tr @ [PageCall t, PageCall alt]))
       \<and> (get_search_results inputs = ts1 @ t # ts2
            \<and> page_provider ps (snd (fetch_loop ps n tr ts1)) t = PageFound p \<longrightarrow>
            st_documents (fst (WikipediaSummaryNode ps n tr inputs)) =
              Some (fst (fetch_loop ps n tr ts1) @ make_document n t p
                # fst (fetch_loop ps n (snd (fetch_loop ps n tr ts1) @ [PageCall t]) ts2)))
       \<and> set (fst (fetch_loop ps n tr titles))
           \<subseteq> {make_document n t' p' | tr' t' p'. page_provider ps tr' t' = PageFound p'}"
proof -
  have "\<forall>t'. doc_content (make_document n t' p) =
           (if int (length (page_content p)) > n
            then take (nat n) (page_content p) @ ''... [Content truncated]''
            else page_content p)"
    using assms
    by (simp add: make_document_def truncate_content_def slice_to_def truncation_marker_def Let_def)
  then show ?thesis
    using fetch_title_found [of ps tr t p n] fetch_title_alternative [of ps tr t alt others p n]
      summary_node_found [of inputs ts1 t ts2 ps n tr p] fetch_loop_docs [of ps n tr titles]
    by blast
qed

theorem truncated_body_witness:
  "st_documents (fst (WikipediaSummaryNode example_providers 3 []
       ((initial_state ''q'')\<lparr>st_search_results := Some [''A'']\<rparr>))) =
     Some [\<lparr>doc_title = ''A'', doc_content = ''abc... [Content truncated]'', doc_url = ''u'',
            doc_summary = ''s''\<rparr>]
   \<and> doc_content (make_document 3 ''T'' \<lparr>page_content = ''abc'', page_url = ''u'', page_summary = ''s''\<rparr>)
       = ''abc''"
proof -
  let ?i = "(initial_state ''q'')\<lparr>st_search_results := Some [''A'']\<rparr>"
  have a: "(0::int) \<le> 3" by simp
  have b: "get_search_results ?i = [] @ ''A'' # []"
    by (simp add: get_search_results_def initial_state_def)
  have c: "page_provider example_providers (snd (fetch_loop example_providers 3 [] [])) ''A''
             = PageFound example_page"
    by (simp add: example_providers_def constant_providers_def)
  have d: "doc_content (make_document 3 ''A'' example_page) = ''abc... [Content truncated]''"
    using truncated_body [OF a, of example_page] by (simp add: example_page_def)
  have e: "make_document 3 ''A'' example_page =
      \<lparr>doc_title = ''A'', doc_content = doc_content (make_document 3 ''A'' example_page),
        doc_url = ''u'', doc_summary = ''s''\<rparr>"
    by (simp add: make_document_def example_page_def slice_to_def)
  have "st_documents (fst (WikipediaSummaryNode example_providers 3 [] ?i)) =
          Some [make_document 3 ''A'' example_page]"
    using truncated_body [OF a, of example_page example_providers "[]" "''A''" _ _ ?i "[]" "[]"] b c
    by simp
  moreover have "doc_content (make_document 3 ''T'' \<lparr>page_content = ''abc'', page_url = ''u'', page_summary = ''s''\<rparr>)
       = ''abc''"
    using truncated_body [OF a, of "\<lparr>page_content = ''abc'', page_url = ''u'', page_summary = ''s''\<rparr>"]
    by simp
  ultimately show ?thesis using d e by simp
qed

subsection \<open>C3: the empty query\<close>

text \<open>
  C3. For the empty query (the key absent, or the empty string) SearchStage returns
  \<^verbatim>\<open>{search_results: [], error: "No query provided"}\<close> and SynthesisStage returns the answer
  \<^verbatim>\<open>No query provided\<close> with no sources, neither calling a provider; FetchStage, given
  no search result, returns no document and its error without calling a provider; and a
  run of the pipeline on the empty query ends with no search result, no document, that
  answer, the error of FetchStage, and an empty trace. A query of whitespace only is not
  empty for the nodes: it is searched for like any other.
\<close>

theorem empty_query_no_calls:
  "WikipediaSearchNode ps m tr (inputs\<lparr>st_query := Some []\<rparr>) =
     (empty_dict\<lparr>st_search_results := Some [], st_error := Some ''No query provided''\<rparr>, tr)
   \<and> WikipediaSearchNode ps m tr (inputs\<lparr>st_query := None\<rparr>) =
     (empty_dict\<lparr>st_search_results := Some [], st_error := Some ''No query provided''\<rparr>, tr)
   \<and> WikipediaSummaryNode ps n tr (inputs\<lparr>st_search_results := Some []\<rparr>) =
     (empty_dict\<lparr>st_documents := Some [], st_query := Some (get_query inputs),
        st_error := Some ''No search results to process''\<rparr>, tr)
   \<and> GPTSummarizerNode ps tr (inputs\<lparr>st_query := Some []\<rparr>) =
     (empty_dict\<lparr>st_answer := Some (Text ''No query provided''), st_sources := Some []\<rparr>, tr)
   \<and> GPTSummarizerNode ps tr (inputs\<lparr>st_query := None\<rparr>) =
     (empty_dict\<lparr>st_answer := Some (Text ''No query provided''), st_sources := Some []\<rparr>, tr)
   \<and> research ps cfg [] =
     (\<lparr>st_query = Some [], st_search_results = Some [], st_documents = Some [],
       st_answer = Some (Text ''No query provided''), st_sources = Some [],
       st_error = Some ''No search results to process''\<rparr>, [])"
  by (simp add: WikipediaSearchNode_def initial_state_def get_query_def
      empty_dict_def Let_def research_def workflow_invoke_def merge_state_def
      WikipediaSummaryNode_def get_search_results_def GPTSummarizerNode_def get_documents_def)

text \<open>
  The query of one space: SearchStage calls the search provider with it, and the run
  goes on to fetch the title found.
\<close>

theorem whitespace_query_counterexample:
  "list_all is_space '' ''
   \<and> snd (WikipediaSearchNode (constant_providers (SearchTitles [''A'']) PageNotFound (GenText ''x''))
            3 [] (initial_state '' '')) = [SearchCall '' '' 3]
   \<and> snd (research (constant_providers (SearchTitles [''A'']) PageNotFound (GenText ''x''))
            \<lparr>max_results = 3, max_content_length = 3000\<rparr> '' '')
       = [SearchCall '' '' 3, PageCall ''A'']"
  by (simp add: is_space_def WikipediaSearchNode_def constant_providers_def initial_state_def get_query_def
      search_return_def empty_dict_def Let_def research_def workflow_invoke_def merge_state_def
      WikipediaSummaryNode_def get_search_results_def fetch_title_def GPTSummarizerNode_def
      get_documents_def)

subsection \<open>C4: no documents\<close>

text \<open>
  C4. Given a non-empty query and no documents, SynthesisStage returns the fixed apology
  with an empty sources list, and the trace is unchanged: no generation call is made.
\<close>

theorem no_documents_no_generation:
  assumes "get_query inputs \<noteq> []" and "get_documents inputs = []"
  shows "GPTSummarizerNode ps tr inputs =
           (empty_dict\<lparr>st_answer := Some (Text ''I couldn't find any relevant Wikipedia articles for your query. Please try rephrasing your question or using different keywords.''),
               st_sources := Some []\<rparr>, tr)"
  using assms by (simp add: GPTSummarizerNode_def no_documents_answer_def Let_def)

theorem no_documents_no_generation_witness:
  "GPTSummarizerNode (constant_providers (SearchTitles []) PageNotFound (GenText ''x'')) []
      (initial_state ''q'') =
     (empty_dict\<lparr>st_answer := Some (Text ''I couldn't find any relevant Wikipedia articles for your query. Please try rephrasing your question or using different keywords.''),
         st_sources := Some []\<rparr>, [])"
proof -
  have a: "get_query (initial_state ''q'') \<noteq> []"
    by (simp add: get_query_def initial_state_def)
  have b: "get_documents (initial_state ''q'') = []"
    by (simp add: get_documents_def initial_state_def)
  show ?thesis by (rule no_documents_no_generation [OF a b])
qed

subsection \<open>C5: a fault of the generation call\<close>

text \<open>
  C5. Given a non-empty query and at least one document, when the generation call
  faults with a message, SynthesisStage returns the answer
  \<^verbatim>\<open>I encountered an error while processing your request: \<close> followed by the message, the
  sources built from the input documents (one per document) and the query.
\<close>

theorem generation_fault_keeps_sources:
  assumes "get_query inputs \<noteq> []" and "get_documents inputs \<noteq> []"
    and "gen_provider ps tr
           (build_prompt (get_query inputs)
              (join [newline, newline] (map context_part (get_documents inputs)))) = GenFault msg"
  shows "fst (GPTSummarizerNode ps tr inputs) =
           empty_dict\<lparr>st_answer := Some (Text (''I encountered an error while processing your request: '' @ msg)),
             st_sources := Some (map source_of (get_documents inputs)),
             st_query := Some (get_query inputs)\<rparr>
       \<and> length (map source_of (get_documents inputs)) = length (get_documents inputs)"
  using assms by (simp add: GPTSummarizerNode_def generation_error_prefix_def Let_def)

theorem generation_fault_keeps_sources_witness:
  "fst (GPTSummarizerNode (constant_providers (SearchTitles []) PageNotFound (GenFault ''boom'')) []
         ((initial_state ''q'')\<lparr>st_documents := Some [example_document]\<rparr>)) =
     empty_dict\<lparr>st_answer := Some (Text ''I encountered an error while processing your request: boom''),
       st_sources := Some [\<lparr>src_title = ''T'', src_url = ''u'', src_summary = ''s''\<rparr>],
       st_query := Some ''q''\<rparr>"
proof -
  let ?ps = "constant_providers (SearchTitles []) PageNotFound (GenFault ''boom'')"
  let ?i = "(initial_state ''q'')\<lparr>st_documents := Some [example_document]\<rparr>"
  have a: "get_query ?i \<noteq> []"
    by (simp add: get_query_def initial_state_def)
  have b: "get_documents ?i \<noteq> []"
    by (simp add: get_documents_def initial_state_def)
  have c: "gen_provider ?ps []
           (build_prompt (get_query ?i)
              (join [newline, newline] (map context_part (get_documents ?i)))) = GenFault ''boom''"
    by (simp add: constant_providers_def)
  have d: "get_query ?i = ''q''"
    by (simp add: get_query_def initial_state_def)
  have e: "map source_of (get_documents ?i) = [\<lparr>src_title = ''T'', src_url = ''u'', src_summary = ''s''\<rparr>]"
    by (simp add: get_documents_def initial_state_def source_of_def example_document_def)
  show ?thesis using generation_fault_keeps_sources [OF a b c] by (simp add: d e)
qed

subsection \<open>C6: the answer of a run\<close>

text \<open>
  C6. For every query and every behaviour of the providers in which the completion
  always has a content and the content is never the empty text, the state returned by
  \<^verbatim>\<open>research\<close> has a non-empty text as answer; so has the state built by the handler of
  \<^verbatim>\<open>research\<close>. The content of the completion is passed on as it is, so an empty content
  is an empty answer and a missing content (\<^verbatim>\<open>None\<close>) is the answer \<^verbatim>\<open>None\<close>.
\<close>

theorem nonempty_answer:
  assumes "\<forall>tr p. gen_provider ps tr p \<noteq> GenText [] \<and> gen_provider ps tr p \<noteq> GenNone"
  shows "(\<exists>a. st_answer (fst (research ps cfg q)) = Some (Text a) \<and> a \<noteq> [])
       \<and> (\<exists>a. st_answer (research_error_state q msg) = Some (Text a) \<and> a \<noteq> [])"
proof -
  obtain s2 tr2 where a: "after_fetch ps cfg q = (s2, tr2)"
    by (cases "after_fetch ps cfg q")
  obtain u3 tr3 where b: "GPTSummarizerNode ps tr2 s2 = (u3, tr3)"
    by (cases "GPTSummarizerNode ps tr2 s2")
  obtain ans where c: "st_answer u3 = Some (Text ans)" "ans \<noteq> []"
    using gpt_node_answer [of ps tr2 s2] assms b by auto
  have "st_answer (fst (research ps cfg q)) = Some (Text ans)"
    using a b c by (simp add: research_steps merge_get)
  then show ?thesis using c by (simp add: research_error_state_def)
qed

theorem nonempty_answer_witness:
  "st_answer (fst (research example_providers example_config ''q'')) = Some (Text ''ok'')
   \<and> (\<exists>a. st_answer (fst (research example_providers example_config ''q'')) = Some (Text a)
          \<and> a \<noteq> [])"
proof -
  have a: "\<forall>tr p. gen_provider example_providers tr p \<noteq> GenText []
             \<and> gen_provider example_providers tr p \<noteq> GenNone"
    by (simp add: example_providers_def constant_providers_def)
  have c: "st_answer (fst (research example_providers example_config ''q'')) = Some (Text ''ok'')"
    by (simp add: example_providers_def WikipediaSearchNode_def constant_providers_def initial_state_def get_query_def
      search_return_def empty_dict_def Let_def research_def workflow_invoke_def merge_state_def
      WikipediaSummaryNode_def get_search_results_def fetch_title_def GPTSummarizerNode_def
      get_documents_def)
  show ?thesis using nonempty_answer [OF a, of example_config "''q''" "''m''"] c by simp
qed

text \<open>
  A completion whose content is the empty text: the answer of the run is the empty
  text. A completion with no content: the answer of the run is \<^verbatim>\<open>None\<close>.
\<close>

theorem empty_generation_counterexample:
  "st_answer (fst (research
       (constant_providers (SearchTitles [''A'']) (PageFound example_page) (GenText []))
       \<lparr>max_results = 3, max_content_length = 3000\<rparr> ''q'')) = Some (Text [])
   \<and> st_answer (fst (research
       (constant_providers (SearchTitles [''A'']) (PageFound example_page) GenNone)
       \<lparr>max_results = 3, max_content_length = 3000\<rparr> ''q'')) = Some NoneValue"
  by (simp add: WikipediaSearchNode_def constant_providers_def initial_state_def get_query_def
      search_return_def empty_dict_def Let_def research_def workflow_invoke_def merge_state_def
      WikipediaSummaryNode_def get_search_results_def fetch_title_def GPTSummarizerNode_def
      get_documents_def)

subsection \<open>C7: the retry after an empty result\<close>

text \<open>
  C7. For a non-empty query for which the search provider returns no result, SearchStage
  makes exactly one more call. Its search term is the first whitespace-delimited token
  of the query (the query without its leading whitespace, up to the next whitespace
  character), or the query itself when the query is whitespace only. When the retry
  returns a list, the stage returns that list and the query, with no error key, also
  when the list is empty; when the retry reports a disambiguation the stage returns the
  first \<^verbatim>\<open>max_results\<close> alternatives; when it faults the stage returns no result and the
  fault's message as error.
\<close>

theorem zero_results_retry:
  assumes "get_query inputs \<noteq> []"
    and "search_provider ps tr (get_query inputs) m = SearchTitles []"
  shows "snd (WikipediaSearchNode ps m tr inputs) =
           tr @ [SearchCall (get_query inputs) m, SearchCall (simplified_query (get_query inputs)) m]
       \<and> simplified_query (get_query inputs) =
           (if list_all is_space (get_query inputs) then get_query inputs
            else takeWhile (\<lambda>c. \<not> is_space c) (dropWhile is_space (get_query inputs)))
       \<and> (\<forall>rs. search_provider ps (tr @ [SearchCall (get_query inputs) m])
                  (simplified_query (get_query inputs)) m = SearchTitles rs \<longrightarrow>
              fst (WikipediaSearchNode ps m tr inputs) =
                empty_dict\<lparr>st_search_results := Some rs, st_query := Some (get_query inputs)\<rparr>)
       \<and> (\<forall>opts. search_provider ps (tr @ [SearchCall (get_query inputs) m])
                  (simplified_query (get_query inputs)) m = SearchDisambiguation opts \<longrightarrow>
              fst (WikipediaSearchNode ps m tr inputs) =
                empty_dict\<lparr>st_search_results := Some (slice_to m opts),
                  st_query := Some (get_query inputs)\<rparr>)
       \<and> (\<forall>e. search_provider ps (tr @ [SearchCall (get_query inputs) m])
                  (simplified_query (get_query inputs)) m = SearchFault e \<longrightarrow>
              fst (WikipediaSearchNode ps m tr inputs) =
                empty_dict\<lparr>st_search_results := Some [], st_error := Some e,
                  st_query := Some (get_query inputs)\<rparr>)"
  using assms simplified_query_eq [of "get_query inputs"]
  by (simp add: WikipediaSearchNode_def Let_def search_return_def)

theorem zero_results_retry_witness:
  "snd (WikipediaSearchNode retry_providers 3 [] (initial_state ''alan  turing'')) =
     [SearchCall ''alan  turing'' 3, SearchCall ''alan'' 3]
   \<and> fst (WikipediaSearchNode retry_providers 3 [] (initial_state ''alan  turing'')) =
       empty_dict\<lparr>st_search_results := Some [''A''], st_query := Some ''alan  turing''\<rparr>"
proof -
  let ?i = "initial_state ''alan  turing''"
  have q: "get_query ?i = ''alan  turing''"
    by (simp add: get_query_def initial_state_def)
  have a: "get_query ?i \<noteq> []"
    by (simp add: q)
  have b: "search_provider retry_providers [] (get_query ?i) 3 = SearchTitles []"
    by (simp add: retry_providers_def)
  have s: "simplified_query ''alan  turing'' = ''alan''"
    by (simp add: simplified_query_def split_def is_space_def)
  have r: "search_provider retry_providers ([] @ [SearchCall ''alan  turing'' 3]) ''alan'' 3
             = SearchTitles [''A'']"
    by (simp add: retry_providers_def)
  show ?thesis using zero_results_retry [OF a b] r by (simp add: q s)
qed

text \<open>
  The query of one space has no token, and is searched for again as it is; the retry
  faults, and the stage returns the fault's message in the error key.
\<close>

theorem retry_counterexample:
  "split '' '' = []
   \<and> WikipediaSearchNode failing_retry_providers 3 [] (initial_state '' '') =
       (empty_dict\<lparr>st_search_results := Some [], st_error := Some ''boom'', st_query := Some '' ''\<rparr>,
        [SearchCall '' '' 3, SearchCall '' '' 3])"
  by (simp add: split_def is_space_def WikipediaSearchNode_def failing_retry_providers_def
      initial_state_def get_query_def simplified_query_def search_return_def Let_def)

subsection \<open>C8: sources and documents\<close>

text \<open>
  C8. For every non-empty query and non-empty documents list given to SynthesisStage,
  the returned sources are the projections \<^verbatim>\<open>{title, url, summary}\<close> of the documents, one
  per document and in their order, whatever the generation call does; in the terminal
  state of every run the sources are the projections of the documents; and FetchStage
  emits the documents of earlier titles before those of later titles. With an empty
  query the stage returns no source, whatever the documents.
\<close>

theorem sources_follow_documents:
  assumes "get_query inputs \<noteq> []" and "get_documents inputs \<noteq> []"
  shows "st_sources (fst (GPTSummarizerNode ps tr inputs)) = Some (map source_of (get_documents inputs))
       \<and> length (map source_of (get_documents inputs)) = length (get_documents inputs)
       \<and> st_sources (fst (research ps cfg q))
           = Some (map source_of (get_documents (fst (research ps cfg q))))
       \<and> fst (fetch_loop ps n tr (ts1 @ ts2)) =
           fst (fetch_loop ps n tr ts1) @ fst (fetch_loop ps n (snd (fetch_loop ps n tr ts1)) ts2)"
  using assms gpt_node_sources [of inputs ps tr] research_sources [of ps cfg q]
    fetch_loop_append [of ps n tr ts1 ts2]
  by simp

theorem sources_follow_documents_witness:
  "st_sources (fst (GPTSummarizerNode example_providers []
       ((initial_state ''q'')\<lparr>st_documents := Some [example_document, example_document\<lparr>doc_title := ''U''\<rparr>]\<rparr>)))
     = Some [\<lparr>src_title = ''T'', src_url = ''u'', src_summary = ''s''\<rparr>,
             \<lparr>src_title = ''U'', src_url = ''u'', src_summary = ''s''\<rparr>]"
proof -
  let ?i = "(initial_state ''q'')\<lparr>st_documents := Some [example_document, example_document\<lparr>doc_title := ''U''\<rparr>]\<rparr>"
  have a: "get_query ?i \<noteq> []"
    by (simp add: get_query_def initial_state_def)
  have b: "get_documents ?i \<noteq> []"
    by (simp add: get_documents_def initial_state_def)
  have e: "map source_of (get_documents ?i) =
      [\<lparr>src_title = ''T'', src_url = ''u'', src_summary = ''s''\<rparr>,
       \<lparr>src_title = ''U'', src_url = ''u'', src_summary = ''s''\<rparr>]"
    by (simp add: get_documents_def initial_state_def source_of_def example_document_def)
  show ?thesis
    using sources_follow_documents [OF a b, where ps = example_providers and tr = "[]"]
    by (simp add: e)
qed

text \<open>An empty query with one document: no source is returned.\<close>

theorem sources_empty_query_counterexample:
  "get_documents ((initial_state [])\<lparr>st_documents := Some [example_document]\<rparr>) = [example_document]
   \<and> fst (GPTSummarizerNode (constant_providers (SearchTitles []) PageNotFound (GenText ''x'')) []
         ((initial_state [])\<lparr>st_documents := Some [example_document]\<rparr>)) =
     empty_dict\<lparr>st_answer := Some (Text ''No query provided''), st_sources := Some []\<rparr>"
  by (simp add: GPTSummarizerNode_def initial_state_def get_query_def get_documents_def Let_def)

subsection \<open>C9: the retained history\<close>

text \<open>
  C9. After a sequence of at least one addition, the history is the last 10 entries of
  the earlier history followed by the added entries, in arrival order, so it never
  exceeds 10 entries; after 10 additions or more it has exactly 10 entries, the last 10
  added; in particular after 12 additions it holds the last 10 of the 12.
\<close>

theorem history_keeps_last_ten:
  assumes "reqs \<noteq> []"
  shows "get_history (add_requests reqs ss) =
           drop (length (get_history ss @ map (entry_of ss) reqs) - 10)
             (get_history ss @ map (entry_of ss) reqs)
       \<and> length (get_history (add_requests reqs ss)) \<le> 10
       \<and> (10 \<le> length reqs \<longrightarrow>
            length (get_history (add_requests reqs ss)) = 10
            \<and> get_history (add_requests reqs ss) = drop (length reqs - 10) (map (entry_of ss) reqs))
       \<and> (length reqs = 12 \<longrightarrow>
            length (get_history (add_requests reqs ss)) = 10
            \<and> get_history (add_requests reqs ss) = drop 2 (map (entry_of ss) reqs))"
  using add_requests_history [OF assms, of ss]
  by (simp add: get_history_def slice_last_def)

theorem history_keeps_last_ten_witness:
  "length twelve_requests = 12
   \<and> length (get_history (add_requests twelve_requests fresh_session)) = 10
   \<and> map h_query (get_history (add_requests twelve_requests fresh_session)) =
       [''q3'', ''q4'', ''q5'', ''q6'', ''q7'', ''q8'', ''q9'', ''q10'', ''q11'', ''q12'']"
proof -
  have a: "twelve_requests \<noteq> []"
    by (simp add: twelve_requests_def)
  have c: "length twelve_requests = 12"
    by (simp add: twelve_requests_def)
  have "get_history (add_requests twelve_requests fresh_session)
          = drop 2 (map (entry_of fresh_session) twelve_requests)"
    using history_keeps_last_ten [OF a, of fresh_session] c by simp
  then show ?thesis
    by (simp add: twelve_requests_def entry_of_def)
qed

subsection \<open>C10: the title of a disambiguated document\<close>



end
